theory Spec2Isabelle
  imports Complex_Main "HOL-Library.AList"
begin

section \<open>The GRI ESG reporter (gri_1.py)\<close>

text \<open>
  The program is one Streamlit script. Each run reads the current value of every form
  widget, computes the three emission totals from fixed factor tables, builds the
  \<open>report\<close> dictionary and renders it as a Word document.

  Conventions of the embedding:
  \<^item> Python \<open>str\<close> is \<open>string\<close>, holding the UTF-8 bytes of the text; the few non-ASCII
    characters of the source's literals are written as their byte sequences.
  \<^item> Python \<open>float\<close> is \<open>real\<close>: products and sums are the exact ones, the rounding of
    IEEE double arithmetic is not part of the embedding.
  \<^item> A \<open>dict\<close> is an association list in insertion order, the order in which Python
    iterates it.
  \<^item> Output-only calls (\<open>st.title\<close>, \<open>st.subheader\<close>, \<open>st.success\<close>, \<open>st.caption\<close>,
    \<open>st.download_button\<close>, \<open>st.expander\<close>) bind no variable and are left out.
\<close>

subsection \<open>Text\<close>

abbreviation rupee_sign :: string where
  "rupee_sign \<equiv> [CHR 0xE2, CHR 0x82, CHR 0xB9]"

abbreviation nb_hyphen :: string where
  "nb_hyphen \<equiv> [CHR 0xE2, CHR 0x80, CHR 0x91]"

abbreviation en_dash :: string where
  "en_dash \<equiv> [CHR 0xE2, CHR 0x80, CHR 0x93]"

abbreviation superscript_three :: string where
  "superscript_three \<equiv> [CHR 0xC2, CHR 0xB3]"

subsection \<open>The factor tables (lines 18--41)\<close>

definition INDIA_SCOPE1_EF :: "(string \<times> real) list" where
  "INDIA_SCOPE1_EF =
    [(''Diesel (litres)'', 2.68),
     (''Petrol (litres)'', 2.31),
     (''Furnace Oil (litres)'', 3.10),
     (''LPG (kg)'', 2.95),
     (''Natural Gas (scm)'', 1.93)]"

definition INDIA_GRID_EF_T_PER_KWH :: real where
  "INDIA_GRID_EF_T_PER_KWH = 0.00082"

definition DEFRA_SCOPE3_EF :: "(string \<times> real) list" where
  "DEFRA_SCOPE3_EF =
    [(''Purchased Goods & Services ('' @ rupee_sign @ '' lakh)'', 1.95),
     (''Capital Goods ('' @ rupee_sign @ '' lakh)'', 2.40),
     (''Fuel & Energy'' @ nb_hyphen @ ''Related Activities (GJ)'', 0.000125),
     (''Upstream T&D (t'' @ nb_hyphen @ ''km)'', 0.000055),
     (''Waste Generated (t)'', 0.98),
     (''Business Travel (passenger'' @ nb_hyphen @ ''km)'', 0.00018),
     (''Employee Commuting (passenger'' @ nb_hyphen @ ''km)'', 0.00012),
     (''End'' @ nb_hyphen @ ''of'' @ nb_hyphen @ ''Life Treatment (t)'', 1.15)]"

definition MATERIAL_TOPICS :: "string list" where
  "MATERIAL_TOPICS =
    [''Employee Health, Safety & Wellbeing'', ''Climate Action'', ''Product Stewardship'',
     ''Responsible Supply Chain'', ''Talent Management & Training'',
     ''Human Rights & Labour Practices'', ''Circular Economy'', ''Environmental Protection'',
     ''Business Ethics'', ''Corruption'', ''Air Pollution'', ''Water'',
     ''Community Relations'', ''Data Privacy'']"

subsection \<open>The form: what the widgets return\<close>

text \<open>
  A widget is identified by its \<open>key=\<close> argument when it has one, and by its label
  otherwise. The form input of a run is what the user has entered so far, per kind of
  widget; a widget nobody touched returns its default. \<open>st.number_input(label, m)\<close> passes
  \<open>m\<close> as \<open>min_value\<close> and no \<open>value\<close>, so its default is \<open>m\<close>; it returns a \<open>float\<close>
  when \<open>m\<close> is one and an \<open>int\<close> when \<open>m\<close> is one. The widget never returns a number
  below \<open>min_value\<close>: an entry below the bound is not taken and the widget returns its
  default. An integer widget takes no entry above \<open>2^53 - 1\<close> either. A float entry is a
  float, so the largest float, the upper bound of a float widget, never excludes it.
\<close>

datatype widget_id = Key string | Label string

record form_input =
  text_values :: "widget_id \<rightharpoonup> string"
  float_values :: "widget_id \<rightharpoonup> real"
  int_values :: "widget_id \<rightharpoonup> int"
  multiselect_values :: "widget_id \<rightharpoonup> string list"
  checkbox_values :: "widget_id \<rightharpoonup> bool"

definition text_input :: "form_input \<Rightarrow> widget_id \<Rightarrow> string \<Rightarrow> string" where
  "text_input inp w dflt = (case text_values inp w of None \<Rightarrow> dflt | Some s \<Rightarrow> s)"

definition text_area :: "form_input \<Rightarrow> widget_id \<Rightarrow> string" where
  "text_area inp w = (case text_values inp w of None \<Rightarrow> [] | Some s \<Rightarrow> s)"

definition number_input :: "form_input \<Rightarrow> widget_id \<Rightarrow> real \<Rightarrow> real" where
  "number_input inp w min_value =
     (case float_values inp w of
        None \<Rightarrow> min_value
      | Some v \<Rightarrow> if min_value \<le> v then v else min_value)"

definition number_input_int :: "form_input \<Rightarrow> widget_id \<Rightarrow> int \<Rightarrow> int" where
  "number_input_int inp w min_value =
     (case int_values inp w of
        None \<Rightarrow> min_value
      | Some v \<Rightarrow> if min_value \<le> v \<and> v \<le> 2 ^ 53 - 1 then v else min_value)"

definition multiselect :: "form_input \<Rightarrow> widget_id \<Rightarrow> string list \<Rightarrow> string list" where
  "multiselect inp w dflt = (case multiselect_values inp w of None \<Rightarrow> dflt | Some xs \<Rightarrow> xs)"

definition checkbox :: "form_input \<Rightarrow> widget_id \<Rightarrow> bool \<Rightarrow> bool" where
  "checkbox inp w dflt = (case checkbox_values inp w of None \<Rightarrow> dflt | Some b \<Rightarrow> b)"

definition untouched_form :: form_input where
  "untouched_form =
     \<lparr>text_values = Map.empty, float_values = Map.empty, int_values = Map.empty,
      multiselect_values = Map.empty, checkbox_values = Map.empty\<rparr>"

subsection \<open>Scope 1 and Scope 2 (lines 95--105)\<close>

fun scope1_loop :: "form_input \<Rightarrow> (string \<times> real) list \<Rightarrow> real \<Rightarrow> real" where
  "scope1_loop inp [] scope1_total = scope1_total"
| "scope1_loop inp ((fuel, ef) # rest) scope1_total =
     (let qty = number_input inp (Key fuel) 0.0
      in scope1_loop inp rest (scope1_total + qty * ef))"

definition scope1_total :: "form_input \<Rightarrow> real" where
  "scope1_total inp = scope1_loop inp INDIA_SCOPE1_EF 0.0"

definition scope2_total :: "form_input \<Rightarrow> real" where
  "scope2_total inp =
     (let kwh = number_input inp (Label ''Electricity purchased (kWh)'') 0.0
      in kwh * INDIA_GRID_EF_T_PER_KWH)"

subsection \<open>Scope 3 (lines 107--116)\<close>

record category_row =
  Category :: string
  Qty :: real
  EF :: real
  Emissions :: real

fun scope3_loop ::
  "form_input \<Rightarrow> (string \<times> real) list \<Rightarrow> category_row list \<times> real \<Rightarrow> category_row list \<times> real"
where
  "scope3_loop inp [] (scope3_rows, total_scope3) = (scope3_rows, total_scope3)"
| "scope3_loop inp ((cat, ef) # rest) (scope3_rows, total_scope3) =
     (let qty = number_input inp (Key cat) 0.0;
          ef_input = number_input inp (Key (cat @ ''_ef'')) ef;
          em = qty * ef_input
      in scope3_loop inp rest
           (scope3_rows @ [\<lparr>Category = cat, Qty = qty, EF = ef_input, Emissions = em\<rparr>],
            total_scope3 + em))"

definition scope3_rows :: "form_input \<Rightarrow> category_row list" where
  "scope3_rows inp = fst (scope3_loop inp DEFRA_SCOPE3_EF ([], 0.0))"

definition total_scope3 :: "form_input \<Rightarrow> real" where
  "total_scope3 inp = snd (scope3_loop inp DEFRA_SCOPE3_EF ([], 0.0))"

subsection \<open>Material topics and narratives (lines 43--44, 76--93)\<close>

text \<open>
  \<open>str.split(",")\<close> and \<open>str.strip()\<close> on UTF-8 text. The comma is one byte that occurs in
  no multi-byte character, so splitting the bytes splits the text. \<open>strip\<close> removes the
  characters for which \<open>str.isspace\<close> holds; \<open>py_whitespace\<close> lists their encodings.
\<close>

fun py_split :: "char \<Rightarrow> string \<Rightarrow> string list" where
  "py_split sep [] = [[]]"
| "py_split sep (c # cs) =
     (if c = sep then [] # py_split sep cs
      else (case py_split sep cs of [] \<Rightarrow> [[c]] | w # ws \<Rightarrow> (c # w) # ws))"

definition py_whitespace :: "string list" where
  "py_whitespace =
    [[CHR 0x09], [CHR 0x0A], [CHR 0x0B], [CHR 0x0C], [CHR 0x0D],
     [CHR 0x1C], [CHR 0x1D], [CHR 0x1E], [CHR 0x1F], [CHR 0x20],
     [CHR 0xC2, CHR 0x85], [CHR 0xC2, CHR 0xA0], [CHR 0xE1, CHR 0x9A, CHR 0x80],
     [CHR 0xE2, CHR 0x80, CHR 0x80], [CHR 0xE2, CHR 0x80, CHR 0x81],
     [CHR 0xE2, CHR 0x80, CHR 0x82], [CHR 0xE2, CHR 0x80, CHR 0x83],
     [CHR 0xE2, CHR 0x80, CHR 0x84], [CHR 0xE2, CHR 0x80, CHR 0x85],
     [CHR 0xE2, CHR 0x80, CHR 0x86], [CHR 0xE2, CHR 0x80, CHR 0x87],
     [CHR 0xE2, CHR 0x80, CHR 0x88], [CHR 0xE2, CHR 0x80, CHR 0x89],
     [CHR 0xE2, CHR 0x80, CHR 0x8A], [CHR 0xE2, CHR 0x80, CHR 0xA8],
     [CHR 0xE2, CHR 0x80, CHR 0xA9], [CHR 0xE2, CHR 0x80, CHR 0xAF],
     [CHR 0xE2, CHR 0x81, CHR 0x9F], [CHR 0xE3, CHR 0x80, CHR 0x80]]"

definition space_len :: "string list \<Rightarrow> string \<Rightarrow> nat" where
  "space_len spaces s =
     (case find (\<lambda>w. w \<noteq> [] \<and> take (length w) s = w) spaces of
        None \<Rightarrow> 0
      | Some w \<Rightarrow> length w)"

function strip_front :: "string list \<Rightarrow> string \<Rightarrow> string" where
  "strip_front spaces s =
     (if space_len spaces s = 0 then s else strip_front spaces (drop (space_len spaces s) s))"
  by pat_completeness auto

termination strip_front
proof (relation "measure (\<lambda>(spaces, s). length s)")
  show "wf (measure (\<lambda>(spaces :: string list, s :: string). length s))"
    by simp
next
  fix spaces :: "string list" and s :: string
  assume "space_len spaces s \<noteq> 0"
  then have pos: "0 < space_len spaces s"
    by simp
  then have "s \<noteq> []"
    by (auto simp: space_len_def find_Some_iff split: option.splits)
  with pos show "((spaces, drop (space_len spaces s) s), (spaces, s))
      \<in> measure (\<lambda>(spaces, s). length s)"
    by simp
qed

definition py_strip :: "string \<Rightarrow> string" where
  "py_strip s = rev (strip_front (map rev py_whitespace) (rev (strip_front py_whitespace s)))"

record topic_entry =
  stakeholders :: string
  risks :: string
  opportunities :: string
  kpis :: "string list"

fun topic_loop ::
  "form_input \<Rightarrow> string list \<Rightarrow> (string \<times> topic_entry) list \<Rightarrow> (string \<times> topic_entry) list"
where
  "topic_loop inp [] topic_info = topic_info"
| "topic_loop inp (topic # rest) topic_info =
     (let stk = text_input inp (Key (topic @ ''stk'')) [];
          rsk = text_area inp (Key (topic @ ''rsk''));
          opp = text_area inp (Key (topic @ ''opp''));
          kpis = filter (\<lambda>x. x \<noteq> [])
                   (map py_strip (py_split CHR '','' (text_area inp (Key (topic @ ''kpi'')))))
      in topic_loop inp rest
           (AList.update topic
              \<lparr>stakeholders = stk, risks = rsk, opportunities = opp, kpis = kpis\<rparr>
              topic_info))"

definition selected_topics :: "form_input \<Rightarrow> string list" where
  "selected_topics inp = multiselect inp (Label ''Choose topics'') MATERIAL_TOPICS"

definition topic_info :: "form_input \<Rightarrow> (string \<times> topic_entry) list" where
  "topic_info inp = topic_loop inp (selected_topics inp) []"

definition ai_narrative :: "string \<Rightarrow> topic_entry \<Rightarrow> string" where
  "ai_narrative topic info = ''(AI narrative disabled: OpenAI not configured)''"

fun narratives_loop ::
  "(string \<times> topic_entry) list \<Rightarrow> (string \<times> string) list \<Rightarrow> (string \<times> string) list"
where
  "narratives_loop [] narratives = narratives"
| "narratives_loop ((t, info) # rest) narratives =
     narratives_loop rest (AList.update t (ai_narrative t info) narratives)"

definition narratives_val :: "form_input \<Rightarrow> (string \<times> string) list" where
  "narratives_val inp =
     (if checkbox inp (Label ''Generate AI narratives (optional)'') False
      then narratives_loop (topic_info inp) []
      else [])"

subsection \<open>The remaining inputs (lines 76--78, 118--134)\<close>

definition company_val :: "form_input \<Rightarrow> string" where
  "company_val inp = text_input inp (Label ''Company Name'') ''COMPANY''"

definition report_period :: "form_input \<Rightarrow> string" where
  "report_period inp =
     text_input inp (Label ''Reporting Period'')
       (''01 April 2025 '' @ en_dash @ '' 31 March 2026'')"

definition frameworks_val :: "form_input \<Rightarrow> string list" where
  "frameworks_val inp =
     multiselect inp (Label ''Frameworks Used'') [''GRI Standards 2021'', ''SDGs'']"

definition energy_gj :: "form_input \<Rightarrow> real" where
  "energy_gj inp = number_input inp (Label ''Energy (GJ)'') 0.0"

definition renew_gj :: "form_input \<Rightarrow> real" where
  "renew_gj inp = number_input inp (Label ''Renewable Energy (GJ)'') 0.0"

definition water_m3 :: "form_input \<Rightarrow> real" where
  "water_m3 inp = number_input inp (Label (''Water Withdrawal (m'' @ superscript_three @ '')'')) 0.0"

definition waste_t :: "form_input \<Rightarrow> real" where
  "waste_t inp = number_input inp (Label ''Waste Generated (t)'') 0.0"

definition emp :: "form_input \<Rightarrow> int" where
  "emp inp = number_input_int inp (Label ''Total Employees'') 0"

definition ltifr :: "form_input \<Rightarrow> real" where
  "ltifr inp = number_input inp (Label ''LTIFR'') 0.0"

definition train_hr :: "form_input \<Rightarrow> real" where
  "train_hr inp = number_input inp (Label ''Training Hours'') 0.0"

definition female_pct :: "form_input \<Rightarrow> real" where
  "female_pct inp = number_input inp (Label ''% Female Employees'') 0.0"

definition ethics_pct :: "form_input \<Rightarrow> real" where
  "ethics_pct inp = number_input inp (Label ''% Trained in Ethics'') 0.0"

definition board_size :: "form_input \<Rightarrow> int" where
  "board_size inp = number_input_int inp (Label ''Board Size'') 0"

definition indep_dir :: "form_input \<Rightarrow> int" where
  "indep_dir inp = number_input_int inp (Label ''Independent Directors'') 0"

definition data_breach :: "form_input \<Rightarrow> int" where
  "data_breach inp = number_input_int inp (Label ''Data Breaches'') 0"

subsection \<open>The report dictionary (lines 136--165)\<close>

text \<open>
  \<open>round(x, 2)\<close> on a \<open>float\<close> gives the multiple of \<open>0.01\<close> nearest to \<open>x\<close>, the even
  one when \<open>x\<close> is exactly half way between two.
\<close>

definition py_round :: "real \<Rightarrow> nat \<Rightarrow> real" where
  "py_round x ndigits =
     (let y = x * 10 ^ ndigits;
          f = \<lfloor>y\<rfloor>;
          d = y - of_int f
      in of_int (if d < 1 / 2 then f else if 1 / 2 < d then f + 1
                 else if even f then f else f + 1) / 10 ^ ndigits)"

datatype number = PyInt int | PyFloat real

record report_record =
  company :: string
  period :: string
  frameworks :: "string list"
  topics :: "(string \<times> topic_entry) list"
  narratives :: "(string \<times> string) list"
  environmental :: "(string \<times> real) list"
  scope3_details :: "category_row list"
  social :: "(string \<times> number) list"
  governance :: "(string \<times> number) list"
  created :: string

text \<open>
  The dictionary literal, as a function of the variables it reads; \<open>now\<close> stands for
  \<open>str(dt.datetime.now())\<close>, the one reading of the clock.
\<close>

definition assemble ::
  "string \<Rightarrow> string \<Rightarrow> string list \<Rightarrow> (string \<times> topic_entry) list \<Rightarrow> (string \<times> string) list
   \<Rightarrow> real \<Rightarrow> real \<Rightarrow> real \<Rightarrow> category_row list
   \<Rightarrow> real \<Rightarrow> real \<Rightarrow> real \<Rightarrow> real
   \<Rightarrow> int \<Rightarrow> real \<Rightarrow> real \<Rightarrow> real
   \<Rightarrow> real \<Rightarrow> int \<Rightarrow> int \<Rightarrow> int
   \<Rightarrow> string \<Rightarrow> report_record"
where
  "assemble company_v report_period_v frameworks_v topic_info_v narratives_v
     scope1_total_v scope2_total_v total_scope3_v scope3_rows_v
     energy_gj_v renew_gj_v water_m3_v waste_t_v
     emp_v ltifr_v train_hr_v female_pct_v
     ethics_pct_v board_size_v indep_dir_v data_breach_v now =
   \<lparr>company = company_v,
    period = report_period_v,
    frameworks = frameworks_v,
    topics = topic_info_v,
    narratives = narratives_v,
    environmental =
      [(''Scope 1'', py_round scope1_total_v 2),
       (''Scope 2'', py_round scope2_total_v 2),
       (''Scope 3'', py_round total_scope3_v 2),
       (''Energy'', energy_gj_v),
       (''Renewable'', renew_gj_v),
       (''Water'', water_m3_v),
       (''Waste'', waste_t_v)],
    scope3_details = scope3_rows_v,
    social =
      [(''Employees'', PyInt emp_v),
       (''LTIFR'', PyFloat ltifr_v),
       (''Training Hours'', PyFloat train_hr_v),
       (''% Female'', PyFloat female_pct_v)],
    governance =
      [(''% Ethics Trained'', PyFloat ethics_pct_v),
       (''Data Breaches'', PyInt data_breach_v),
       (''Board Size'', PyInt board_size_v),
       (''Independent Directors'', PyInt indep_dir_v)],
    created = now\<rparr>"

definition report :: "form_input \<Rightarrow> string \<Rightarrow> report_record" where
  "report inp now =
     assemble (company_val inp) (report_period inp) (frameworks_val inp) (topic_info inp)
       (narratives_val inp)
       (scope1_total inp) (scope2_total inp) (total_scope3 inp) (scope3_rows inp)
       (energy_gj inp) (renew_gj inp) (water_m3 inp) (waste_t inp)
       (emp inp) (ltifr inp) (train_hr inp) (female_pct inp)
       (ethics_pct inp) (board_size inp) (indep_dir inp) (data_breach inp) now"

subsection \<open>The Word document (lines 46--71)\<close>

text \<open>
  The document is the sequence of blocks that \<open>build_docx\<close> adds. Its texts are kept as
  pieces: a literal, \<open>str(x)\<close> of a float, or \<open>f"{x:.2f}"\<close>; the digits that Python prints
  for a float are not computed here. The serialisation of the blocks by \<open>doc.save\<close>
  and the temporary file are outside the embedding.
\<close>

datatype piece = Lit string | Str real | Fixed2 real

datatype block =
  Heading string nat
  | Paragraph "piece list"
  | Table "piece list list"

fun py_join :: "string \<Rightarrow> string list \<Rightarrow> string" where
  "py_join sep [] = []"
| "py_join sep [x] = x"
| "py_join sep (x # y # ys) = x @ sep @ py_join sep (y # ys)"

fun narrative_blocks :: "(string \<times> string) list \<Rightarrow> block list" where
  "narrative_blocks [] = []"
| "narrative_blocks ((topic, txt) # rest) =
     Heading topic 2 # Paragraph [Lit txt] # narrative_blocks rest"

fun environmental_blocks :: "(string \<times> real) list \<Rightarrow> block list" where
  "environmental_blocks [] = []"
| "environmental_blocks ((k, v) # rest) =
     Paragraph [Lit k, Lit '': '', Str v] # environmental_blocks rest"

fun table_rows :: "category_row list \<Rightarrow> piece list list \<Rightarrow> piece list list" where
  "table_rows [] table = table"
| "table_rows (row # rest) table =
     table_rows rest
       (table @ [[Lit (Category row), Str (Qty row), Str (EF row), Fixed2 (Emissions row)]])"

definition build_docx :: "report_record \<Rightarrow> block list" where
  "build_docx data =
     [Heading (''GRI ESG Report '' @ en_dash @ '' COPMANY NAME'') 0,
      Paragraph [Lit (''Reporting period: '' @ period data)],
      Paragraph [Lit (''Frameworks: '' @ py_join '', '' (frameworks data))],
      Heading ''Material Topic Narratives'' 1]
     @ narrative_blocks (narratives data)
     @ [Heading ''Environmental KPIs'' 1]
     @ environmental_blocks (environmental data)
     @ [Heading ''Scope 3 Breakdown'' 2,
        Table (table_rows (scope3_details data)
                 [[Lit ''Category'', Lit ''Qty'', Lit ''EF'', Lit ''Emissions'']])]"

definition docx_bytes :: "form_input \<Rightarrow> string \<Rightarrow> block list" where
  "docx_bytes inp now = build_docx (report inp now)"

subsection \<open>A run of the script\<close>

text \<open>
  The error kinds are the ones the specification names. The script has no \<open>raise\<close>, no
  validation and no lookup that can fail between its first widget and the end of the
  dictionary literal, so every run reaches the literal: the outcome of a run is always
  the report.
\<close>

datatype error = InvalidInput | UnknownCategory | RenderFailure


subsection \<open>Notions used to state the properties\<close>

text \<open>\<open>enter_float w v inp\<close>: the form \<open>inp\<close> after the user has typed \<open>v\<close> into number widget \<open>w\<close>.\<close>

definition enter_float :: "widget_id \<Rightarrow> real \<Rightarrow> form_input \<Rightarrow> form_input" where
  "enter_float w v inp = inp\<lparr>float_values := (float_values inp)(w \<mapsto> v)\<rparr>"

text \<open>The tables of a document, each as its list of rows, in document order.\<close>

fun tables :: "block list \<Rightarrow> piece list list list" where
  "tables [] = []"
| "tables (Table t # rest) = t # tables rest"
| "tables (Heading txt level # rest) = tables rest"
| "tables (Paragraph txt # rest) = tables rest"

section \<open>Properties\<close>

subsection \<open>Auxiliary facts about the loops\<close>

lemma float_values_enter_float [simp]:
  "float_values (enter_float w v inp) = (float_values inp)(w \<mapsto> v)"
  by (simp add: enter_float_def)

lemma scope1_loop_sum:
  "scope1_loop inp fuels t = t + (\<Sum>(fuel, ef)\<leftarrow>fuels. number_input inp (Key fuel) 0 * ef)"
  by (induction fuels arbitrary: t) (auto simp: Let_def)

lemma scope3_loop_eq:
  "scope3_loop inp cats (rows, tot) =
     (rows @ map (\<lambda>(cat, ef).
         \<lparr>Category = cat,
          Qty = number_input inp (Key cat) 0,
          EF = number_input inp (Key (cat @ ''_ef'')) ef,
          Emissions = number_input inp (Key cat) 0 * number_input inp (Key (cat @ ''_ef'')) ef\<rparr>) cats,
      tot + (\<Sum>(cat, ef)\<leftarrow>cats.
         number_input inp (Key cat) 0 * number_input inp (Key (cat @ ''_ef'')) ef))"
  by (induction cats arbitrary: rows tot) (auto simp: Let_def)

lemma scope3_rows_eq:
  "scope3_rows inp =
     map (\<lambda>(cat, ef).
         \<lparr>Category = cat,
          Qty = number_input inp (Key cat) 0,
          EF = number_input inp (Key (cat @ ''_ef'')) ef,
          Emissions = number_input inp (Key cat) 0 * number_input inp (Key (cat @ ''_ef'')) ef\<rparr>)
       DEFRA_SCOPE3_EF"
  by (simp add: scope3_rows_def scope3_loop_eq)

lemma table_rows_eq:
  "table_rows rows table =
     table @ map (\<lambda>row. [Lit (Category row), Str (Qty row), Str (EF row), Fixed2 (Emissions row)]) rows"
  by (induction rows arbitrary: table) auto

lemma tables_append: "tables (xs @ ys) = tables xs @ tables ys"
  by (induction xs rule: tables.induct) auto

lemma tables_narrative_blocks: "tables (narrative_blocks ns) = []"
  by (induction ns rule: narrative_blocks.induct) auto

lemma tables_environmental_blocks: "tables (environmental_blocks es) = []"
  by (induction es rule: environmental_blocks.induct) auto

lemma tables_build_docx:
  "tables (build_docx data) =
     [[Lit ''Category'', Lit ''Qty'', Lit ''EF'', Lit ''Emissions'']
      # map (\<lambda>row. [Lit (Category row), Str (Qty row), Str (EF row), Fixed2 (Emissions row)])
          (scope3_details data)]"
  by (simp add: build_docx_def tables_append tables_narrative_blocks
      tables_environmental_blocks table_rows_eq)

lemma scope3_details_report: "scope3_details (report inp now) = scope3_rows inp"
  by (simp add: report_def assemble_def)

lemma Category_scope3_rows: "map Category (scope3_rows inp) = map fst DEFRA_SCOPE3_EF"
  by (simp add: scope3_rows_eq comp_def case_prod_unfold)

subsection \<open>Auxiliary facts about rounding\<close>

lemma py_round_2_grid: "\<exists>n::int. py_round x 2 = of_int n / 100"
  by (auto simp: py_round_def Let_def)

lemma py_round_2_near: "\<bar>py_round x 2 - x\<bar> \<le> 1 / 200"
proof -
  define f where "f = \<lfloor>x * 100\<rfloor>"
  have lo: "of_int f \<le> x * 100" and hi: "x * 100 < of_int f + 1"
    unfolding f_def by linarith+
  show ?thesis
    using lo hi unfolding py_round_def Let_def f_def [symmetric]
    by (auto simp: f_def [symmetric] abs_if field_simps)
qed

subsection \<open>Auxiliary facts: the widgets the Scope 3 loop reads\<close>


subsection \<open>Scope 1\<close>

text \<open>
  Claim C2. Whatever the form holds, the Scope 1 total is the sum, over the five fuels of
  the fixed table, of the fuel's quantity times its fixed factor, where a fuel with no
  entry counts with quantity 0 (and so does an entry below 0, which the widget does not
  take). When every quantity entered is non-negative, the total is the sum of the entered
  quantities times the fixed factors. In particular, with 100 litres of diesel entered and
  every other fuel absent or 0, the total is \<open>100 \<times> 2.68 = 268.00\<close>.
\<close>

theorem scope1_total_is_sum:
  "scope1_total inp =
     (\<Sum>(fuel, ef)\<leftarrow>INDIA_SCOPE1_EF.
        (case float_values inp (Key fuel) of
           None \<Rightarrow> 0 | Some q \<Rightarrow> if 0 \<le> q then q else 0) * ef)
   \<and> ((\<forall>(fuel, ef)\<in>set INDIA_SCOPE1_EF.
          \<forall>q. float_values inp (Key fuel) = Some q \<longrightarrow> 0 \<le> q)
      \<longrightarrow> scope1_total inp =
            (\<Sum>(fuel, ef)\<leftarrow>INDIA_SCOPE1_EF.
               (case float_values inp (Key fuel) of None \<Rightarrow> 0 | Some q \<Rightarrow> q) * ef))
   \<and> (float_values inp (Key ''Diesel (litres)'') = Some 100
        \<and> (\<forall>fuel\<in>set (map fst INDIA_SCOPE1_EF).
              fuel \<noteq> ''Diesel (litres)'' \<longrightarrow> float_values inp (Key fuel) \<in> {None, Some 0})
      \<longrightarrow> scope1_total inp = 268.00)"
proof (intro conjI impI)
  show total: "scope1_total inp =
     (\<Sum>(fuel, ef)\<leftarrow>INDIA_SCOPE1_EF.
        (case float_values inp (Key fuel) of
           None \<Rightarrow> 0 | Some q \<Rightarrow> if 0 \<le> q then q else 0) * ef)"
    by (simp add: scope1_total_def scope1_loop_sum number_input_def)
  {
    assume nonneg: "\<forall>(fuel, ef)\<in>set INDIA_SCOPE1_EF.
          \<forall>q. float_values inp (Key fuel) = Some q \<longrightarrow> 0 \<le> q"
    have "map (\<lambda>(fuel, ef).
            (case float_values inp (Key fuel) of
               None \<Rightarrow> 0 | Some q \<Rightarrow> if 0 \<le> q then q else 0) * ef) INDIA_SCOPE1_EF
        = map (\<lambda>(fuel, ef).
            (case float_values inp (Key fuel) of None \<Rightarrow> 0 | Some q \<Rightarrow> q) * ef)
            INDIA_SCOPE1_EF"
      using nonneg by (intro map_cong refl) (auto split: option.splits)
    then show "scope1_total inp =
            (\<Sum>(fuel, ef)\<leftarrow>INDIA_SCOPE1_EF.
               (case float_values inp (Key fuel) of None \<Rightarrow> 0 | Some q \<Rightarrow> q) * ef)"
      unfolding total by (rule arg_cong)
  }
  assume diesel: "float_values inp (Key ''Diesel (litres)'') = Some 100
        \<and> (\<forall>fuel\<in>set (map fst INDIA_SCOPE1_EF).
              fuel \<noteq> ''Diesel (litres)'' \<longrightarrow> float_values inp (Key fuel) \<in> {None, Some 0})"
  then show "scope1_total inp = 268.00"
    unfolding total by (auto simp: INDIA_SCOPE1_EF_def)
qed

theorem scope1_total_is_sum_witness:
  "float_values (enter_float (Key ''Diesel (litres)'') 100 untouched_form) (Key ''Diesel (litres)'')
     = Some 100
   \<and> float_values (enter_float (Key ''Diesel (litres)'') 100 untouched_form)
       (Key ''Petrol (litres)'') = None
   \<and> float_values (enter_float (Key ''Diesel (litres)'') 100 untouched_form)
       (Key ''Furnace Oil (litres)'') = None
   \<and> float_values (enter_float (Key ''Diesel (litres)'') 100 untouched_form)
       (Key ''LPG (kg)'') = None
   \<and> float_values (enter_float (Key ''Diesel (litres)'') 100 untouched_form)
       (Key ''Natural Gas (scm)'') = None
   \<and> scope1_total (enter_float (Key ''Diesel (litres)'') 100 untouched_form) =
       (\<Sum>(fuel, ef)\<leftarrow>INDIA_SCOPE1_EF.
          (case float_values (enter_float (Key ''Diesel (litres)'') 100 untouched_form) (Key fuel)
           of None \<Rightarrow> 0 | Some q \<Rightarrow> q) * ef)
   \<and> scope1_total (enter_float (Key ''Diesel (litres)'') 100 untouched_form) = 268.00"
proof -
  let ?D = "enter_float (Key ''Diesel (litres)'') 100 untouched_form"
  have entries: "float_values ?D (Key ''Diesel (litres)'') = Some 100"
      "float_values ?D (Key ''Petrol (litres)'') = None"
      "float_values ?D (Key ''Furnace Oil (litres)'') = None"
      "float_values ?D (Key ''LPG (kg)'') = None"
      "float_values ?D (Key ''Natural Gas (scm)'') = None"
    by (simp_all add: untouched_form_def)
  have nonneg: "\<forall>(fuel, ef)\<in>set INDIA_SCOPE1_EF.
      \<forall>q. float_values ?D (Key fuel) = Some q \<longrightarrow> 0 \<le> q"
    by (simp add: untouched_form_def INDIA_SCOPE1_EF_def)
  have others: "float_values ?D (Key ''Diesel (litres)'') = Some 100
      \<and> (\<forall>fuel\<in>set (map fst INDIA_SCOPE1_EF).
            fuel \<noteq> ''Diesel (litres)'' \<longrightarrow> float_values ?D (Key fuel) \<in> {None, Some 0})"
    by (simp add: untouched_form_def INDIA_SCOPE1_EF_def)
  note sum = scope1_total_is_sum [of ?D, THEN conjunct2, THEN conjunct1, THEN mp, OF nonneg]
  note scenario = scope1_total_is_sum [of ?D, THEN conjunct2, THEN conjunct2, THEN mp, OF others]
  from entries sum scenario show ?thesis
    by (intro conjI)
qed

subsection \<open>Scope 2\<close>

text \<open>
  Claim C5. The Scope 2 total is linear in the electricity entered: entering 0 kWh gives
  0, entering \<open>2k\<close> gives twice the total of entering \<open>k\<close>, and entering 100000 kWh gives
  \<open>100000 \<times> 0.00082 = 82.00\<close>. The statement holds for every real \<open>k\<close>, so for the
  non-negative ones.
\<close>

theorem scope2_total_linear:
  "scope2_total (enter_float (Label ''Electricity purchased (kWh)'') 0 inp) = 0
   \<and> scope2_total (enter_float (Label ''Electricity purchased (kWh)'') (2 * k) inp)
       = 2 * scope2_total (enter_float (Label ''Electricity purchased (kWh)'') k inp)
   \<and> scope2_total (enter_float (Label ''Electricity purchased (kWh)'') 100000 inp) = 82.00"
  by (simp add: scope2_total_def number_input_def INDIA_GRID_EF_T_PER_KWH_def)

subsection \<open>Scope 3\<close>




text \<open>
  Claim C4. Whatever the form holds, the Scope 3 rows list the categories in the order in
  which the fixed catalog declares them. The document has exactly one table; its rows
  after the header are the rows of \<open>scope3_details\<close> in their order, so the table of the
  document built from a run lists the catalog's categories in the catalog's order. The
  form holds its entries by widget, so no order of entry exists that could change this.
\<close>

theorem scope3_catalog_order:
  "map Category (scope3_rows inp) = map fst DEFRA_SCOPE3_EF
   \<and> tables (build_docx data) =
       [[Lit ''Category'', Lit ''Qty'', Lit ''EF'', Lit ''Emissions'']
        # map (\<lambda>row. [Lit (Category row), Str (Qty row), Str (EF row), Fixed2 (Emissions row)])
            (scope3_details data)]
   \<and> map (take 1) (concat (tables (docx_bytes inp now))) =
       [Lit ''Category''] # map (\<lambda>cat. [Lit cat]) (map fst DEFRA_SCOPE3_EF)"
proof (intro conjI)
  show "map Category (scope3_rows inp) = map fst DEFRA_SCOPE3_EF"
    by (rule Category_scope3_rows)
  show "tables (build_docx data) =
       [[Lit ''Category'', Lit ''Qty'', Lit ''EF'', Lit ''Emissions'']
        # map (\<lambda>row. [Lit (Category row), Str (Qty row), Str (EF row), Fixed2 (Emissions row)])
            (scope3_details data)]"
    by (rule tables_build_docx)
  have "map (take 1) (concat (tables (docx_bytes inp now))) =
      [Lit ''Category''] # map (\<lambda>cat. [Lit cat]) (map Category (scope3_rows inp))"
    by (simp add: docx_bytes_def tables_build_docx scope3_details_report comp_def)
  then show "map (take 1) (concat (tables (docx_bytes inp now))) =
       [Lit ''Category''] # map (\<lambda>cat. [Lit cat]) (map fst DEFRA_SCOPE3_EF)"
    by (simp only: Category_scope3_rows)
qed

text \<open>
  Claim C9. Whatever the form holds, \<open>scope3_details\<close> of the report has exactly 8 rows,
  their categories are the 8 categories of the fixed catalog, and no category occurs
  twice; a category with quantity 0 has its row like any other.
\<close>

theorem scope3_details_complete:
  "length (scope3_details (report inp now)) = 8
   \<and> map Category (scope3_details (report inp now)) = map fst DEFRA_SCOPE3_EF
   \<and> distinct (map Category (scope3_details (report inp now)))"
proof (intro conjI)
  show names: "map Category (scope3_details (report inp now)) = map fst DEFRA_SCOPE3_EF"
    by (simp only: scope3_details_report Category_scope3_rows)
  have "length (scope3_details (report inp now)) = length (map fst DEFRA_SCOPE3_EF)"
    by (metis names length_map)
  also have "\<dots> = 8"
    by (simp add: DEFRA_SCOPE3_EF_def)
  finally show "length (scope3_details (report inp now)) = 8" .
  show "distinct (map Category (scope3_details (report inp now)))"
    unfolding names by (simp add: DEFRA_SCOPE3_EF_def)
qed

text \<open>
  Claim C7. Every row the Scope 3 loop builds has emissions equal to its quantity times
  its factor, the report's \<open>scope3_details\<close> is that list of rows unchanged, and so every
  row of \<open>scope3_details\<close> satisfies the same equation. The Scope 1 loop builds no rows.
\<close>

theorem category_row_invariant:
  "(\<forall>row\<in>set (scope3_rows inp). Emissions row = Qty row * EF row)
   \<and> scope3_details (report inp now) = scope3_rows inp
   \<and> (\<forall>row\<in>set (scope3_details (report inp now)). Emissions row = Qty row * EF row)"
  by (auto simp: scope3_details_report scope3_rows_eq)

theorem category_row_invariant_witness:
  "\<lparr>Category = ''Waste Generated (t)'', Qty = 10, EF = 0.98, Emissions = 9.80\<rparr>
     \<in> set (scope3_details (report (enter_float (Key ''Waste Generated (t)'') 10 untouched_form) ''t''))
   \<and> Emissions \<lparr>Category = ''Waste Generated (t)'', Qty = 10, EF = 0.98, Emissions = 9.80\<rparr>
     = Qty \<lparr>Category = ''Waste Generated (t)'', Qty = 10, EF = 0.98, Emissions = 9.80\<rparr>
       * EF \<lparr>Category = ''Waste Generated (t)'', Qty = 10, EF = 0.98, Emissions = 9.80\<rparr>"
proof -
  have mem: "\<lparr>Category = ''Waste Generated (t)'', Qty = 10, EF = 0.98, Emissions = 9.80\<rparr>
     \<in> set (scope3_details (report (enter_float (Key ''Waste Generated (t)'') 10 untouched_form) ''t''))"
    by (simp add: scope3_details_report scope3_rows_eq number_input_def untouched_form_def
        DEFRA_SCOPE3_EF_def)
  with category_row_invariant [of "enter_float (Key ''Waste Generated (t)'') 10 untouched_form" "''t''"]
  show ?thesis by blast
qed

subsection \<open>The report\<close>

text \<open>
  Claim C3. The dictionary literal copies each of the variables it reads into its field
  unchanged, except the three emission totals, which it rounds to 2 decimal places: the
  rounded value is a whole number of hundredths and lies within half a hundredth of the
  total. Nothing else is computed when the report is built.
\<close>

theorem assemble_structural:
  "(let r = assemble c p fw ti nv s1 s2 s3 rows e rn w wt em l th fp ep bs idr db now in
      company r = c \<and> period r = p \<and> frameworks r = fw \<and> topics r = ti \<and> narratives r = nv
      \<and> environmental r =
          [(''Scope 1'', py_round s1 2), (''Scope 2'', py_round s2 2), (''Scope 3'', py_round s3 2),
           (''Energy'', e), (''Renewable'', rn), (''Water'', w), (''Waste'', wt)]
      \<and> scope3_details r = rows
      \<and> social r =
          [(''Employees'', PyInt em), (''LTIFR'', PyFloat l), (''Training Hours'', PyFloat th),
           (''% Female'', PyFloat fp)]
      \<and> governance r =
          [(''% Ethics Trained'', PyFloat ep), (''Data Breaches'', PyInt db),
           (''Board Size'', PyInt bs), (''Independent Directors'', PyInt idr)]
      \<and> created r = now)
   \<and> (\<exists>n::int. py_round x 2 = of_int n / 100) \<and> \<bar>py_round x 2 - x\<bar> \<le> 1 / 200"
  using py_round_2_grid [of x] py_round_2_near [of x]
  by (simp add: assemble_def Let_def)

text \<open>
  Claim C6. Two runs on the same form content that read the clock at different times
  build reports that are equal in every field except \<open>created\<close>, which holds the clock
  reading of the run.
\<close>

theorem report_deterministic:
  "(report inp t1)\<lparr>created := c\<rparr> = (report inp t2)\<lparr>created := c\<rparr>
   \<and> company (report inp t1) = company (report inp t2)
   \<and> period (report inp t1) = period (report inp t2)
   \<and> frameworks (report inp t1) = frameworks (report inp t2)
   \<and> topics (report inp t1) = topics (report inp t2)
   \<and> narratives (report inp t1) = narratives (report inp t2)
   \<and> environmental (report inp t1) = environmental (report inp t2)
   \<and> scope3_details (report inp t1) = scope3_details (report inp t2)
   \<and> social (report inp t1) = social (report inp t2)
   \<and> governance (report inp t1) = governance (report inp t2)
   \<and> created (report inp t1) = t1 \<and> created (report inp t2) = t2"
  by (simp add: report_def assemble_def)




subsection \<open>The Word document\<close>

text \<open>
  Claim C10. The document does not depend on the \<open>company\<close> field: two records that
  differ only there give the same blocks, and the first block is the title heading with
  its fixed literal text.
\<close>

theorem build_docx_ignores_company:
  "build_docx (data\<lparr>company := c1\<rparr>) = build_docx (data\<lparr>company := c2\<rparr>)
   \<and> take 1 (build_docx data) = [Heading (''GRI ESG Report '' @ en_dash @ '' COPMANY NAME'') 0]"
  by (simp add: build_docx_def)

end
